theory Spec2Isabelle
  imports Main "HOL-Library.Word"
begin

section \<open>Go types as reflect sees them\<close>

text \<open>
  The package decides everything by reflection over the dynamic type of a destination.
  \<open>kind\<close> is the enumeration reflect.Kind, in the order of the reflect package
  (the source writes reflect.Ptr, the older name of reflect.Pointer; reflect.Int is
  \<open>Int_kind\<close> here, \<open>Int\<close> being taken by set intersection).
\<close>

datatype kind =
    Invalid | Bool | Int_kind | Int8 | Int16 | Int32 | Int64
  | Uint | Uint8 | Uint16 | Uint32 | Uint64 | Uintptr
  | Float32 | Float64 | Complex64 | Complex128
  | Array | Chan | Func | Interface | Map | Ptr | Slice | String | Struct
  | UnsafePointer

text \<open>The predeclared types of the language; each has its own kind.\<close>

datatype basic =
    go_bool | go_int | go_int8 | go_int16 | go_int32 | go_int64
  | go_uint | go_uint8 | go_uint16 | go_uint32 | go_uint64 | go_uintptr
  | go_float32 | go_float64 | go_complex64 | go_complex128
  | go_string | go_unsafe_Pointer

text \<open>
  A type is a predeclared type, a defined (named) type with its qualified name and its
  underlying type, or a type literal. Two reflect.Type values are equal exactly when
  the types are identical; here that is equality of \<open>gotype\<close>.
\<close>

datatype gotype =
    Basic basic
  | Named string gotype
  | PtrTo gotype
  | StructOf "(string \<times> gotype) list"
  | ArrayOf nat gotype
  | SliceOf gotype
  | MapOf gotype gotype
  | ChanOf gotype
  | FuncOf "gotype list" "gotype list"
  | InterfaceOf "string list"

fun basic_Kind :: "basic \<Rightarrow> kind" where
  "basic_Kind go_bool = Bool"
| "basic_Kind go_int = Int_kind"
| "basic_Kind go_int8 = Int8"
| "basic_Kind go_int16 = Int16"
| "basic_Kind go_int32 = Int32"
| "basic_Kind go_int64 = Int64"
| "basic_Kind go_uint = Uint"
| "basic_Kind go_uint8 = Uint8"
| "basic_Kind go_uint16 = Uint16"
| "basic_Kind go_uint32 = Uint32"
| "basic_Kind go_uint64 = Uint64"
| "basic_Kind go_uintptr = Uintptr"
| "basic_Kind go_float32 = Float32"
| "basic_Kind go_float64 = Float64"
| "basic_Kind go_complex64 = Complex64"
| "basic_Kind go_complex128 = Complex128"
| "basic_Kind go_string = String"
| "basic_Kind go_unsafe_Pointer = UnsafePointer"

text \<open>Type.Kind: the kind of the underlying representation, whatever the type is called.\<close>

fun Type_Kind :: "gotype \<Rightarrow> kind" where
  "Type_Kind (Basic b) = basic_Kind b"
| "Type_Kind (Named n u) = Type_Kind u"
| "Type_Kind (PtrTo t) = Ptr"
| "Type_Kind (StructOf fs) = Struct"
| "Type_Kind (ArrayOf n t) = Array"
| "Type_Kind (SliceOf t) = Slice"
| "Type_Kind (MapOf k t) = Map"
| "Type_Kind (ChanOf t) = Chan"
| "Type_Kind (FuncOf ins outs) = Func"
| "Type_Kind (InterfaceOf ms) = Interface"

text \<open>
  A call that panics has no result; every function that can panic returns a
  \<open>result\<close>, and \<open>bind_result\<close> sequences two of them.
\<close>

datatype 'a result = Panic | Return 'a

fun bind_result :: "'a result \<Rightarrow> ('a \<Rightarrow> 'b result) \<Rightarrow> 'b result" where
  "bind_result Panic f = Panic"
| "bind_result (Return x) f = f x"

text \<open>
  Type.Elem: the element type of an array, channel, map, pointer or slice type; it
  panics on a type of any other kind.
\<close>

fun Type_Elem :: "gotype \<Rightarrow> gotype result" where
  "Type_Elem (Named n u) = Type_Elem u"
| "Type_Elem (PtrTo t) = Return t"
| "Type_Elem (ArrayOf n t) = Return t"
| "Type_Elem (SliceOf t) = Return t"
| "Type_Elem (MapOf k t) = Return t"
| "Type_Elem (ChanOf t) = Return t"
| "Type_Elem (Basic b) = Panic"
| "Type_Elem (StructOf fs) = Panic"
| "Type_Elem (FuncOf ins outs) = Panic"
| "Type_Elem (InterfaceOf ms) = Panic"

text \<open>
  The types the package names: \<open>any\<close> (the empty interface), time.Time (a defined
  struct type; the fields of time.Location are not spelled out, its name alone
  identifies it) and the package's own NullValue.
\<close>

definition any_type :: gotype where
  "any_type = InterfaceOf []"

definition time_Time_struct :: gotype where
  "time_Time_struct = StructOf
     [(''wall'', Basic go_uint64), (''ext'', Basic go_int64),
      (''loc'', PtrTo (Named ''time.Location'' (StructOf [])))]"

definition time_Time :: gotype where
  "time_Time = Named ''time.Time'' time_Time_struct"

definition NullValue_type :: gotype where
  "NullValue_type = Named ''sqlnull.NullValue'' (StructOf [(''target'', any_type)])"

section \<open>Values and interface values\<close>

text \<open>
  A value in memory: integers of every width are held by their mathematical value
  (inside the range of their type), floating-point numbers by their bits, a pointer by
  the address it holds (\<open>None\<close> for nil). An interface value (\<open>any\<close>) is nil or a
  dynamic type with a value of it.
\<close>

datatype goval =
    BoolV bool
  | IntV int
  | Float32V "32 word"
  | Float64V "64 word"
  | ComplexV "64 word" "64 word"
  | StringV string
  | PtrV "nat option"
  | StructV "goval list"
  | ArrayV "goval list"
  | NilV
  | IfaceV "(gotype \<times> goval) option"

type_synonym any = "(gotype \<times> goval) option"

text \<open>reflect.TypeOf: the dynamic type, the nil Type for the nil interface.\<close>

fun reflect_TypeOf :: "any \<Rightarrow> gotype option" where
  "reflect_TypeOf None = None"
| "reflect_TypeOf (Some (t, v)) = Some t"

section \<open>The canonical nullable holders\<close>

text \<open>
  The holders of database/sql, each with its native value and its Valid flag, in the
  field order of the library.
\<close>

datatype holder =
    NullBool bool bool
  | NullByte "8 word" bool
  | NullInt16 "16 word" bool
  | NullInt32 "32 word" bool
  | NullInt64 "64 word" bool
  | NullString string bool
  | NullFloat64 "64 word" bool
  | NullTime goval bool

datatype error =
    UnsupportedDestination gotype
  | ConversionError string

section \<open>validate\<close>

text \<open>
  \<open>validate\<close> follows the source line by line. reflect.TypeOf of a nil interface is the
  nil Type, and the call of Kind on it panics. The two Kind tests are joined by a
  short-circuit conjunction, so Elem is only called on a pointer type. A supported
  destination yields a fresh zero holder and the destination's type; everything else
  the error built by fmt.Errorf, which names the destination's type.
\<close>

definition unsupported :: "gotype \<Rightarrow> (error + holder \<times> gotype) result" where
  "unsupported targetType = Return (Inl (UnsupportedDestination targetType))"

definition supported :: "holder \<Rightarrow> gotype \<Rightarrow> (error + holder \<times> gotype) result" where
  "supported null targetType = Return (Inr (null, targetType))"

fun validate_switch :: "kind \<Rightarrow> gotype \<Rightarrow> gotype \<Rightarrow> (error + holder \<times> gotype) result" where
  "validate_switch Bool tee targetType = supported (NullBool False False) targetType"
| "validate_switch Uint8 tee targetType = supported (NullByte 0 False) targetType"
| "validate_switch Int8 tee targetType = supported (NullInt16 0 False) targetType"
| "validate_switch Int16 tee targetType = supported (NullInt16 0 False) targetType"
| "validate_switch Uint16 tee targetType = supported (NullInt16 0 False) targetType"
| "validate_switch Int32 tee targetType = supported (NullInt32 0 False) targetType"
| "validate_switch Uint32 tee targetType = supported (NullInt32 0 False) targetType"
| "validate_switch Int64 tee targetType = supported (NullInt64 0 False) targetType"
| "validate_switch Uint64 tee targetType = supported (NullInt64 0 False) targetType"
| "validate_switch Int_kind tee targetType = supported (NullInt64 0 False) targetType"
| "validate_switch Uint tee targetType = supported (NullInt64 0 False) targetType"
| "validate_switch String tee targetType = supported (NullString [] False) targetType"
| "validate_switch Float32 tee targetType = supported (NullFloat64 0 False) targetType"
| "validate_switch Float64 tee targetType = supported (NullFloat64 0 False) targetType"
| "validate_switch Struct tee targetType =
     (if tee = time_Time then supported (NullTime (StructV [IntV 0, IntV 0, PtrV None]) False) targetType
      else unsupported targetType)"
| "validate_switch k tee targetType = unsupported targetType"

definition validate :: "any \<Rightarrow> (error + holder \<times> gotype) result" where
  "validate target =
     (case reflect_TypeOf target of
        None \<Rightarrow> Panic
      | Some targetType \<Rightarrow>
          if Type_Kind targetType = Ptr then
            bind_result (Type_Elem targetType) (\<lambda>te.
              if Type_Kind te = Ptr then
                bind_result (Type_Elem te) (\<lambda>tee.
                  validate_switch (Type_Kind tee) tee targetType)
              else unsupported targetType)
          else unsupported targetType)"

section \<open>Memory\<close>

text \<open>
  The heap is the list of the variables allocated so far; an address is an index into
  it, and allocation appends. A Go pointer is nil or the address of allocated storage,
  so a read or write at an address outside the heap is a fault (\<open>Panic\<close>).
\<close>

type_synonym heap = "goval list"

fun zero_basic :: "basic \<Rightarrow> goval" where
  "zero_basic go_bool = BoolV False"
| "zero_basic go_string = StringV []"
| "zero_basic go_float32 = Float32V 0"
| "zero_basic go_float64 = Float64V 0"
| "zero_basic go_complex64 = ComplexV 0 0"
| "zero_basic go_complex128 = ComplexV 0 0"
| "zero_basic go_unsafe_Pointer = PtrV None"
| "zero_basic b = IntV 0"

text \<open>The zero value of a type.\<close>

fun zero :: "gotype \<Rightarrow> goval" where
  "zero (Basic b) = zero_basic b"
| "zero (Named n u) = zero u"
| "zero (PtrTo t) = PtrV None"
| "zero (StructOf fs) = StructV (map (\<lambda>f. zero (snd f)) fs)"
| "zero (ArrayOf n t) = ArrayV (replicate n (zero t))"
| "zero (SliceOf t) = NilV"
| "zero (MapOf k t) = NilV"
| "zero (ChanOf t) = NilV"
| "zero (FuncOf ins outs) = NilV"
| "zero (InterfaceOf ms) = IfaceV None"

text \<open>The builtin \<open>new\<close>: fresh storage holding the zero value, and its address.\<close>

definition new :: "heap \<Rightarrow> gotype \<Rightarrow> nat \<times> heap" where
  "new h t = (length h, h @ [zero t])"

section \<open>reflect.Value\<close>

text \<open>
  A reflect.Value is the zero Value, or a type together with either the value it
  carries (\<open>Held\<close>) or the address of the variable it refers to (\<open>At\<close>, the
  addressable Values, which Elem of a pointer produces). A Value that refers to a
  variable sees every later write to it.
\<close>

datatype place = Held goval | At nat

datatype reflect_Value = ZeroValue | Value gotype place

fun load :: "heap \<Rightarrow> place \<Rightarrow> goval result" where
  "load h (Held x) = Return x"
| "load h (At a) = (if a < length h then Return (h ! a) else Panic)"

fun reflect_ValueOf :: "any \<Rightarrow> reflect_Value" where
  "reflect_ValueOf None = ZeroValue"
| "reflect_ValueOf (Some (t, x)) = Value t (Held x)"

definition reflect_Zero :: "gotype \<Rightarrow> reflect_Value" where
  "reflect_Zero t = Value t (Held (zero t))"

definition reflect_New :: "heap \<Rightarrow> gotype \<Rightarrow> reflect_Value \<times> heap" where
  "reflect_New h t = (case new h t of (a, h') \<Rightarrow> (Value (PtrTo t) (Held (PtrV (Some a))), h'))"

fun Value_CanAddr :: "reflect_Value \<Rightarrow> bool" where
  "Value_CanAddr (Value t (At a)) = True"
| "Value_CanAddr v = False"

text \<open>
  Value.Elem: of a pointer, the zero Value when the pointer is nil and otherwise the
  addressable Value of the variable it points to; of an interface, the Value it
  contains; a panic on any other kind and on the zero Value.
\<close>

fun Value_Elem :: "heap \<Rightarrow> reflect_Value \<Rightarrow> reflect_Value result" where
  "Value_Elem h ZeroValue = Panic"
| "Value_Elem h (Value t l) =
     (if Type_Kind t = Ptr then
        bind_result (load h l) (\<lambda>x.
          case x of
            PtrV None \<Rightarrow> Return ZeroValue
          | PtrV (Some a) \<Rightarrow> bind_result (Type_Elem t) (\<lambda>te. Return (Value te (At a)))
          | _ \<Rightarrow> Panic)
      else if Type_Kind t = Interface then
        bind_result (load h l) (\<lambda>x.
          case x of
            IfaceV None \<Rightarrow> Return ZeroValue
          | IfaceV (Some (t', x')) \<Rightarrow> Return (Value t' (Held x'))
          | _ \<Rightarrow> Panic)
      else Panic)"

text \<open>
  Assignability between two types neither of which is an interface type: identical
  types, or identical underlying types when at most one of the two has a name
  (predeclared types have one).
\<close>

fun hasName :: "gotype \<Rightarrow> bool" where
  "hasName (Basic b) = True"
| "hasName (Named n u) = True"
| "hasName t = False"

fun underlying :: "gotype \<Rightarrow> gotype" where
  "underlying (Named n u) = underlying u"
| "underlying t = t"

definition directlyAssignable :: "gotype \<Rightarrow> gotype \<Rightarrow> bool" where
  "directlyAssignable T V \<longleftrightarrow>
     T = V \<or> (\<not> (hasName T \<and> hasName V) \<and> Type_Kind T = Type_Kind V \<and> underlying T = underlying V)"

text \<open>
  Value.Set: the receiver must be addressable and the argument a valid Value whose type
  is assignable to the receiver's; the argument's value is then written to the
  receiver's variable. (Assignment to a receiver of interface type boxes the
  argument; Scan never sets a Value of interface type and that case is left out.)
\<close>

fun Value_Set :: "heap \<Rightarrow> reflect_Value \<Rightarrow> reflect_Value \<Rightarrow> heap result" where
  "Value_Set h (Value t (At a)) (Value tx lx) =
     (if directlyAssignable t tx then
        bind_result (load h lx) (\<lambda>x. if a < length h then Return (h[a := x]) else Panic)
      else Panic)"
| "Value_Set h v x = Panic"

section \<open>What the package takes from its platform and from database/sql\<close>

text \<open>
  The package parses nothing itself. The native parse rule of each holder
  (database/sql's conversion of a raw column value to the holder's native type, which
  fails with a message or yields the native value), the width of \<open>int\<close> and \<open>uint\<close>
  and the rounding of a float64 to a float32 are parameters of the embedding.
\<close>

record env =
  convertAssign_bool :: "gotype \<times> goval \<Rightarrow> string + bool"
  convertAssign_uint8 :: "gotype \<times> goval \<Rightarrow> string + 8 word"
  convertAssign_int16 :: "gotype \<times> goval \<Rightarrow> string + 16 word"
  convertAssign_int32 :: "gotype \<times> goval \<Rightarrow> string + 32 word"
  convertAssign_int64 :: "gotype \<times> goval \<Rightarrow> string + 64 word"
  convertAssign_string :: "gotype \<times> goval \<Rightarrow> string + string"
  convertAssign_float64 :: "gotype \<times> goval \<Rightarrow> string + 64 word"
  convertAssign_Time :: "gotype \<times> goval \<Rightarrow> string + goval"
  intSize :: nat
  toFloat32 :: "64 word \<Rightarrow> 32 word"

text \<open>
  Modelled from the spec: the canonical nullable holder's own Scan (database/sql, not
  part of this repository). A raw absent marker leaves the holder absent and fails
  never; any other raw value goes to the holder's native parse rule, whose failure is
  the ConversionError and whose success leaves the holder present with the native value.
  The result is the holder after the call and the error returned.
\<close>

definition parsed :: "string + 'a \<Rightarrow> 'a \<Rightarrow> ('a \<Rightarrow> bool \<Rightarrow> holder) \<Rightarrow> holder \<times> error option" where
  "parsed r old mk =
     (case r of
        Inl msg \<Rightarrow> (mk old False, Some (ConversionError msg))
      | Inr x \<Rightarrow> (mk x True, None))"

fun null_Scan :: "env \<Rightarrow> holder \<Rightarrow> any \<Rightarrow> holder \<times> error option" where
  "null_Scan env (NullBool b valid) None = (NullBool False False, None)"
| "null_Scan env (NullByte w valid) None = (NullByte 0 False, None)"
| "null_Scan env (NullInt16 w valid) None = (NullInt16 0 False, None)"
| "null_Scan env (NullInt32 w valid) None = (NullInt32 0 False, None)"
| "null_Scan env (NullInt64 w valid) None = (NullInt64 0 False, None)"
| "null_Scan env (NullString s valid) None = (NullString [] False, None)"
| "null_Scan env (NullFloat64 w valid) None = (NullFloat64 0 False, None)"
| "null_Scan env (NullTime t valid) None = (NullTime (StructV [IntV 0, IntV 0, PtrV None]) False, None)"
| "null_Scan env (NullBool b valid) (Some x) = parsed (convertAssign_bool env x) b NullBool"
| "null_Scan env (NullByte w valid) (Some x) = parsed (convertAssign_uint8 env x) w NullByte"
| "null_Scan env (NullInt16 w valid) (Some x) = parsed (convertAssign_int16 env x) w NullInt16"
| "null_Scan env (NullInt32 w valid) (Some x) = parsed (convertAssign_int32 env x) w NullInt32"
| "null_Scan env (NullInt64 w valid) (Some x) = parsed (convertAssign_int64 env x) w NullInt64"
| "null_Scan env (NullString s valid) (Some x) = parsed (convertAssign_string env x) s NullString"
| "null_Scan env (NullFloat64 w valid) (Some x) = parsed (convertAssign_float64 env x) w NullFloat64"
| "null_Scan env (NullTime t valid) (Some x) = parsed (convertAssign_Time env x) t NullTime"

text \<open>
  Modelled from the spec: the holder's way to hand out "absent or native value" after
  parsing (the driver.Valuer of database/sql, not part of this repository): nil when
  absent, the native value otherwise, and never an error. The library hands every
  integer holder's value out as an int64.
\<close>

definition present :: "bool \<Rightarrow> gotype \<Rightarrow> goval \<Rightarrow> any \<times> error option" where
  "present valid t x = (if \<not> valid then (None, None) else (Some (t, x), None))"

fun null_Value :: "holder \<Rightarrow> any \<times> error option" where
  "null_Value (NullBool b valid) = present valid (Basic go_bool) (BoolV b)"
| "null_Value (NullByte w valid) = present valid (Basic go_int64) (IntV (uint w))"
| "null_Value (NullInt16 w valid) = present valid (Basic go_int64) (IntV (sint w))"
| "null_Value (NullInt32 w valid) = present valid (Basic go_int64) (IntV (sint w))"
| "null_Value (NullInt64 w valid) = present valid (Basic go_int64) (IntV (sint w))"
| "null_Value (NullString s valid) = present valid (Basic go_string) (StringV s)"
| "null_Value (NullFloat64 w valid) = present valid (Basic go_float64) (Float64V w)"
| "null_Value (NullTime t valid) = present valid time_Time t"

section \<open>Value.Convert\<close>

text \<open>
  An integer converted to an integer type keeps the low bits that fit the type, read
  as signed or unsigned; \<open>int\<close>, \<open>uint\<close> and \<open>uintptr\<close> have the platform's width.
\<close>

definition wrap_signed :: "nat \<Rightarrow> int \<Rightarrow> int" where
  "wrap_signed n i = (i + 2 ^ (n - 1)) mod 2 ^ n - 2 ^ (n - 1)"

definition wrap_unsigned :: "nat \<Rightarrow> int \<Rightarrow> int" where
  "wrap_unsigned n i = i mod 2 ^ n"

fun makeInt :: "env \<Rightarrow> kind \<Rightarrow> int \<Rightarrow> int" where
  "makeInt env Int8 i = wrap_signed 8 i"
| "makeInt env Int16 i = wrap_signed 16 i"
| "makeInt env Int32 i = wrap_signed 32 i"
| "makeInt env Int64 i = wrap_signed 64 i"
| "makeInt env Int_kind i = wrap_signed (intSize env) i"
| "makeInt env Uint8 i = wrap_unsigned 8 i"
| "makeInt env Uint16 i = wrap_unsigned 16 i"
| "makeInt env Uint32 i = wrap_unsigned 32 i"
| "makeInt env Uint64 i = wrap_unsigned 64 i"
| "makeInt env Uint i = wrap_unsigned (intSize env) i"
| "makeInt env Uintptr i = wrap_unsigned (intSize env) i"
| "makeInt env k i = i"

definition signed_kind :: "kind \<Rightarrow> bool" where
  "signed_kind k \<longleftrightarrow> k \<in> {Int_kind, Int8, Int16, Int32, Int64}"

definition integer_kind :: "kind \<Rightarrow> bool" where
  "integer_kind k \<longleftrightarrow>
     k \<in> {Int_kind, Int8, Int16, Int32, Int64, Uint, Uint8, Uint16, Uint32, Uint64, Uintptr}"

definition float_kind :: "kind \<Rightarrow> bool" where
  "float_kind k \<longleftrightarrow> k \<in> {Float32, Float64}"

text \<open>
  Value.Convert, for the conversions Scan performs: a signed integer to any integer
  type, a float64 to either float type, and a value to a type of identical underlying
  type (a copy). reflect knows further conversions (integer to float or to string,
  float to integer, string to and from slices); Scan converts a holder's native value
  to a type whose kind selected that holder, so none of them can arise, and the
  embedding gives them no result. The converted Value is not addressable.
\<close>

fun Value_Convert :: "env \<Rightarrow> heap \<Rightarrow> reflect_Value \<Rightarrow> gotype \<Rightarrow> reflect_Value result" where
  "Value_Convert env h ZeroValue t = Panic"
| "Value_Convert env h (Value tv l) t =
     bind_result (load h l) (\<lambda>x.
       if signed_kind (Type_Kind tv) \<and> integer_kind (Type_Kind t) then
         (case x of
            IntV i \<Rightarrow> Return (Value t (Held (IntV (makeInt env (Type_Kind t) i))))
          | _ \<Rightarrow> Panic)
       else if float_kind (Type_Kind tv) \<and> float_kind (Type_Kind t) then
         (case x of
            Float64V w \<Rightarrow>
              Return (Value t (Held (if Type_Kind t = Float32 then Float32V (toFloat32 env w)
                                     else Float64V w)))
          | _ \<Rightarrow> Panic)
       else if underlying t = underlying tv then Return (Value t (Held x))
       else Panic)"

section \<open>NullValue: New and Scan\<close>

text \<open>
  A NullValue is a struct with the one field \<open>target\<close>. \<open>New\<close> allocates one and
  returns the pointer to it; it looks at the target in no way.
\<close>

definition New :: "heap \<Rightarrow> any \<Rightarrow> goval \<times> heap" where
  "New h target = (PtrV (Some (length h)), h @ [StructV [IfaceV target]])"

text \<open>The field read \<open>v.target\<close> through the receiver; a nil receiver is a fault.\<close>

fun NullValue_target :: "heap \<Rightarrow> goval \<Rightarrow> any result" where
  "NullValue_target h (PtrV (Some a)) =
     (if a < length h then
        (case h ! a of StructV [IfaceV target] \<Rightarrow> Return target | _ \<Rightarrow> Panic)
      else Panic)"
| "NullValue_target h v = Panic"

text \<open>
  \<open>Scan\<close>, statement by statement: validate the target, let the holder parse the raw
  value, take the Value of the variable the target points to, ask the holder for
  "absent or native value", and either set the variable to the zero value of its type
  or convert the native value and write it, allocating first when the variable holds
  no pointer. The result is the error returned (\<open>None\<close> for nil) and the heap after
  the call.
\<close>

definition Scan :: "env \<Rightarrow> heap \<Rightarrow> goval \<Rightarrow> any \<Rightarrow> (error option \<times> heap) result" where
  "Scan env h v src =
     bind_result (NullValue_target h v) (\<lambda>target.
     bind_result (validate target) (\<lambda>r.
       case r of
         Inl err \<Rightarrow> Return (Some err, h)
       | Inr (null, targetType) \<Rightarrow>
           (case null_Scan env null src of
              (null', Some err) \<Rightarrow> Return (Some err, h)
            | (null', None) \<Rightarrow>
                bind_result (Value_Elem h (reflect_ValueOf target)) (\<lambda>val.
                  case null_Value null' of
                    (x, Some err) \<Rightarrow> Return (Some err, h)
                  | (None, None) \<Rightarrow>
                      bind_result (Type_Elem targetType) (\<lambda>te.
                      bind_result (Value_Set h val (reflect_Zero te)) (\<lambda>h1.
                        Return (None, h1)))
                  | (Some x, None) \<Rightarrow>
                      (let newval = reflect_ValueOf (Some x) in
                       bind_result (Value_Elem h val) (\<lambda>e.
                       bind_result
                         (if \<not> Value_CanAddr e then
                            bind_result (Type_Elem targetType) (\<lambda>te.
                            bind_result (Type_Elem te) (\<lambda>tee.
                              case reflect_New h tee of (p, h1) \<Rightarrow> Value_Set h1 val p))
                          else Return h) (\<lambda>h2.
                       bind_result (Value_Elem h2 val) (\<lambda>e2.
                       bind_result (Type_Elem targetType) (\<lambda>te.
                       bind_result (Type_Elem te) (\<lambda>tee.
                       bind_result (Value_Convert env h2 newval tee) (\<lambda>c.
                       bind_result (Value_Set h2 e2 c) (\<lambda>h3.
                         Return (None, h3)))))))))))))"

section \<open>Target and Scanner\<close>

text \<open>
  \<open>Target\<close>: a nil target becomes a pointer to a fresh empty interface; a target that
  validate accepts is wrapped by New; any other target is returned as it is.
\<close>

definition Target :: "heap \<Rightarrow> any \<Rightarrow> (any \<times> heap) result" where
  "Target h target =
     (if target = None then
        (case new h any_type of (a, h') \<Rightarrow> Return (Some (PtrTo any_type, PtrV (Some a)), h'))
      else
        bind_result (validate target) (\<lambda>r.
          case r of
            Inr ok \<Rightarrow> (case New h target of (v, h') \<Rightarrow> Return (Some (PtrTo NullValue_type, v), h'))
          | Inl err \<Rightarrow> Return (target, h)))"

text \<open>\<open>Scanner\<close>: the loop appends the Target of each target, in order.\<close>

fun Scanner_loop :: "heap \<Rightarrow> any list \<Rightarrow> any list \<Rightarrow> (any list \<times> heap) result" where
  "Scanner_loop h result [] = Return (result, h)"
| "Scanner_loop h result (target # targets) =
     bind_result (Target h target) (\<lambda>(t, h'). Scanner_loop h' (result @ [t]) targets)"

definition Scanner :: "heap \<Rightarrow> any list \<Rightarrow> (any list \<times> heap) result" where
  "Scanner h targets = Scanner_loop h [] targets"

text \<open>
  Modelled from the spec: the row-fetch engine (database/sql, not part of this
  repository) handing a raw value to a target that is a reference to an empty
  interface: a nil reference is refused, any other receives the raw value as it is and
  the call does not fail. What the engine does with targets of other types is its own
  business and has no result here.
\<close>

fun engine_assign :: "heap \<Rightarrow> any \<Rightarrow> any \<Rightarrow> (error option \<times> heap) option" where
  "engine_assign h (Some (t, PtrV p)) src =
     (if t = PtrTo any_type then
        (case p of
           None \<Rightarrow> Some (Some (ConversionError ''destination pointer is nil''), h)
         | Some a \<Rightarrow> if a < length h then Some (None, h[a := IfaceV src]) else None)
      else None)"
| "engine_assign h target src = None"

section \<open>The vocabulary of the specification\<close>

text \<open>
  The eight scalar kinds, the fixed table from underlying kind to scalar kind (the
  timestamp row is not a row of kinds: it asks for the type time.Time itself), and the
  zero holder that stands for each scalar kind in the result of validate.
\<close>

datatype ScalarKind =
  K_boolean | K_byte | K_int16 | K_int32 | K_int64 | K_text | K_float | K_timestamp

fun scalar_table :: "kind \<Rightarrow> ScalarKind option" where
  "scalar_table Bool = Some K_boolean"
| "scalar_table Uint8 = Some K_byte"
| "scalar_table Int8 = Some K_int16"
| "scalar_table Int16 = Some K_int16"
| "scalar_table Uint16 = Some K_int16"
| "scalar_table Int32 = Some K_int32"
| "scalar_table Uint32 = Some K_int32"
| "scalar_table Int64 = Some K_int64"
| "scalar_table Uint64 = Some K_int64"
| "scalar_table Int_kind = Some K_int64"
| "scalar_table Uint = Some K_int64"
| "scalar_table String = Some K_text"
| "scalar_table Float32 = Some K_float"
| "scalar_table Float64 = Some K_float"
| "scalar_table k = None"

fun holder_of :: "ScalarKind \<Rightarrow> holder" where
  "holder_of K_boolean = NullBool False False"
| "holder_of K_byte = NullByte 0 False"
| "holder_of K_int16 = NullInt16 0 False"
| "holder_of K_int32 = NullInt32 0 False"
| "holder_of K_int64 = NullInt64 0 False"
| "holder_of K_text = NullString [] False"
| "holder_of K_float = NullFloat64 0 False"
| "holder_of K_timestamp = NullTime (StructV [IntV 0, IntV 0, PtrV None]) False"

text \<open>
  What resolution of a destination of type \<open>t\<close> amounts to when the table gives
  \<open>r\<close>: the holder of the scalar kind, or the UnsupportedDestination error.
\<close>

definition resolved :: "gotype \<Rightarrow> ScalarKind option \<Rightarrow> (error + holder \<times> gotype) result" where
  "resolved t r = (case r of Some k \<Rightarrow> supported (holder_of k) t | None \<Rightarrow> unsupported t)"

text \<open>
  The native value of a present holder converted, as the language converts, to a type
  of kind \<open>k\<close>: a narrower integer type keeps the low bits, an unsigned type reads the
  same bits as unsigned, \<open>int\<close> and \<open>uint\<close> have the platform's width, a float32 is
  the rounded float64, and a boolean, a text or a timestamp is the value itself.
\<close>

fun converted :: "env \<Rightarrow> holder \<Rightarrow> kind \<Rightarrow> goval" where
  "converted env (NullBool b valid) k = BoolV b"
| "converted env (NullByte w valid) k = IntV (uint w)"
| "converted env (NullInt16 w valid) k =
     IntV (if k = Int8 then sint (ucast w :: 8 word) else if k = Uint16 then uint w else sint w)"
| "converted env (NullInt32 w valid) k = IntV (if k = Uint32 then uint w else sint w)"
| "converted env (NullInt64 w valid) k =
     IntV (if k = Int64 then sint w else if k = Uint64 then uint w
           else if k = Int_kind then wrap_signed (intSize env) (sint w)
           else wrap_unsigned (intSize env) (sint w))"
| "converted env (NullString s valid) k = StringV s"
| "converted env (NullFloat64 w valid) k =
     (if k = Float32 then Float32V (toFloat32 env w) else Float64V w)"
| "converted env (NullTime t valid) k = t"

text \<open>
  \<open>extends h h'\<close>: the heap \<open>h'\<close> is \<open>h\<close> with storage allocated after it and nothing
  else changed.
\<close>

definition extends :: "heap \<Rightarrow> heap \<Rightarrow> bool" where
  "extends h h' \<longleftrightarrow> length h \<le> length h' \<and> take (length h) h' = h"

text \<open>
  The three kinds of scan target Scanner produces, seen from the heap \<open>h\<close> before the
  call and the heap \<open>h'\<close> after it: a discard target is a non-nil pointer to an empty
  interface allocated by the call and still empty; a Scan Adapter for \<open>x\<close> is a
  pointer to a NullValue allocated by the call whose target is \<open>x\<close>; a destination
  that is neither nil nor resolvable is the target itself.
\<close>

fun discard_target :: "heap \<Rightarrow> heap \<Rightarrow> any \<Rightarrow> bool" where
  "discard_target h h' (Some (t, PtrV (Some a))) \<longleftrightarrow>
     t = PtrTo any_type \<and> length h \<le> a \<and> a < length h' \<and> h' ! a = IfaceV None"
| "discard_target h h' y \<longleftrightarrow> False"

fun adapter_for :: "heap \<Rightarrow> heap \<Rightarrow> any \<Rightarrow> any \<Rightarrow> bool" where
  "adapter_for h h' x (Some (t, PtrV (Some a))) \<longleftrightarrow>
     t = PtrTo NullValue_type \<and> length h \<le> a \<and> NullValue_target h' (PtrV (Some a)) = Return x"
| "adapter_for h h' x y \<longleftrightarrow> False"

definition built :: "heap \<Rightarrow> heap \<Rightarrow> any \<Rightarrow> any \<Rightarrow> bool" where
  "built h h' x y =
     (if x = None then discard_target h h' y
      else case validate x of
             Return (Inr ok) \<Rightarrow> adapter_for h h' x y
           | _ \<Rightarrow> y = x)"

section \<open>validate and memory\<close>

text \<open>
  \<open>validate\<close> above hands its holder out by value. The source hands out the address
  of a holder it has just allocated (\<open>&sql.NullBool{}\<close> and its siblings), as an
  interface value of the holder's pointer type. \<open>validate_mem\<close> is the same function
  with that allocation and the heap written out, again line by line: it takes the
  heap, returns the three results of the source (the scanner, the type and the error,
  nil ones as \<open>None\<close>) and the heap after the call. The error built by fmt.Errorf is
  a fresh value as well and is returned as a value.
\<close>

fun holder_type :: "holder \<Rightarrow> gotype" where
  "holder_type (NullBool b valid) =
     Named ''sql.NullBool'' (StructOf [(''Bool'', Basic go_bool), (''Valid'', Basic go_bool)])"
| "holder_type (NullByte w valid) =
     Named ''sql.NullByte'' (StructOf [(''Byte'', Basic go_uint8), (''Valid'', Basic go_bool)])"
| "holder_type (NullInt16 w valid) =
     Named ''sql.NullInt16'' (StructOf [(''Int16'', Basic go_int16), (''Valid'', Basic go_bool)])"
| "holder_type (NullInt32 w valid) =
     Named ''sql.NullInt32'' (StructOf [(''Int32'', Basic go_int32), (''Valid'', Basic go_bool)])"
| "holder_type (NullInt64 w valid) =
     Named ''sql.NullInt64'' (StructOf [(''Int64'', Basic go_int64), (''Valid'', Basic go_bool)])"
| "holder_type (NullString s valid) =
     Named ''sql.NullString'' (StructOf [(''String'', Basic go_string), (''Valid'', Basic go_bool)])"
| "holder_type (NullFloat64 w valid) =
     Named ''sql.NullFloat64'' (StructOf [(''Float64'', Basic go_float64), (''Valid'', Basic go_bool)])"
| "holder_type (NullTime t valid) =
     Named ''sql.NullTime'' (StructOf [(''Time'', time_Time), (''Valid'', Basic go_bool)])"

fun holder_val :: "holder \<Rightarrow> goval" where
  "holder_val (NullBool b valid) = StructV [BoolV b, BoolV valid]"
| "holder_val (NullByte w valid) = StructV [IntV (uint w), BoolV valid]"
| "holder_val (NullInt16 w valid) = StructV [IntV (sint w), BoolV valid]"
| "holder_val (NullInt32 w valid) = StructV [IntV (sint w), BoolV valid]"
| "holder_val (NullInt64 w valid) = StructV [IntV (sint w), BoolV valid]"
| "holder_val (NullString s valid) = StructV [StringV s, BoolV valid]"
| "holder_val (NullFloat64 w valid) = StructV [Float64V w, BoolV valid]"
| "holder_val (NullTime t valid) = StructV [t, BoolV valid]"

type_synonym validate_results = "(any \<times> gotype option \<times> error option) \<times> heap"

text \<open>
  \<open>return &sql.NullX{}, targetType, nil\<close>: the holder is allocated and its address
  returned. \<open>return nil, nil, fmt.Errorf(...)\<close>: nothing is allocated.
\<close>

definition supported_mem :: "heap \<Rightarrow> holder \<Rightarrow> gotype \<Rightarrow> validate_results result" where
  "supported_mem h null targetType =
     Return ((Some (PtrTo (holder_type null), PtrV (Some (length h))), Some targetType, None),
             h @ [holder_val null])"

definition unsupported_mem :: "heap \<Rightarrow> gotype \<Rightarrow> validate_results result" where
  "unsupported_mem h targetType =
     Return ((None, None, Some (UnsupportedDestination targetType)), h)"

fun validate_mem_switch :: "heap \<Rightarrow> kind \<Rightarrow> gotype \<Rightarrow> gotype \<Rightarrow> validate_results result" where
  "validate_mem_switch h Bool tee targetType = supported_mem h (NullBool False False) targetType"
| "validate_mem_switch h Uint8 tee targetType = supported_mem h (NullByte 0 False) targetType"
| "validate_mem_switch h Int8 tee targetType = supported_mem h (NullInt16 0 False) targetType"
| "validate_mem_switch h Int16 tee targetType = supported_mem h (NullInt16 0 False) targetType"
| "validate_mem_switch h Uint16 tee targetType = supported_mem h (NullInt16 0 False) targetType"
| "validate_mem_switch h Int32 tee targetType = supported_mem h (NullInt32 0 False) targetType"
| "validate_mem_switch h Uint32 tee targetType = supported_mem h (NullInt32 0 False) targetType"
| "validate_mem_switch h Int64 tee targetType = supported_mem h (NullInt64 0 False) targetType"
| "validate_mem_switch h Uint64 tee targetType = supported_mem h (NullInt64 0 False) targetType"
| "validate_mem_switch h Int_kind tee targetType = supported_mem h (NullInt64 0 False) targetType"
| "validate_mem_switch h Uint tee targetType = supported_mem h (NullInt64 0 False) targetType"
| "validate_mem_switch h String tee targetType = supported_mem h (NullString [] False) targetType"
| "validate_mem_switch h Float32 tee targetType = supported_mem h (NullFloat64 0 False) targetType"
| "validate_mem_switch h Float64 tee targetType = supported_mem h (NullFloat64 0 False) targetType"
| "validate_mem_switch h Struct tee targetType =
     (if tee = time_Time
      then supported_mem h (NullTime (StructV [IntV 0, IntV 0, PtrV None]) False) targetType
      else unsupported_mem h targetType)"
| "validate_mem_switch h k tee targetType = unsupported_mem h targetType"

definition validate_mem :: "heap \<Rightarrow> any \<Rightarrow> validate_results result" where
  "validate_mem h target =
     (case reflect_TypeOf target of
        None \<Rightarrow> Panic
      | Some targetType \<Rightarrow>
          if Type_Kind targetType = Ptr then
            bind_result (Type_Elem targetType) (\<lambda>te.
              if Type_Kind te = Ptr then
                bind_result (Type_Elem te) (\<lambda>tee.
                  validate_mem_switch h (Type_Kind tee) tee targetType)
              else unsupported_mem h targetType)
          else unsupported_mem h targetType)"

text \<open>
  What a caller can tell of a result of \<open>validate_mem\<close> apart from the address of the
  fresh holder: whether the call panicked, and otherwise the type and the contents of
  the holder the scanner points to (none for the nil scanner), the type and the error.
\<close>

fun pointee :: "heap \<Rightarrow> any \<Rightarrow> (gotype \<times> goval) option" where
  "pointee h (Some (t, PtrV (Some a))) = (if a < length h then Some (t, h ! a) else None)"
| "pointee h x = None"

fun outcome ::
  "validate_results result \<Rightarrow> ((gotype \<times> goval) option \<times> gotype option \<times> error option) option" where
  "outcome Panic = None"
| "outcome (Return ((scanner, t, err), h')) = Some (pointee h' scanner, t, err)"

text \<open>The same three results, read off the value-passing \<open>validate\<close>.\<close>

fun outcome_of_validate ::
  "(error + holder \<times> gotype) result \<Rightarrow> ((gotype \<times> goval) option \<times> gotype option \<times> error option) option" where
  "outcome_of_validate Panic = None"
| "outcome_of_validate (Return (Inl err)) = Some (None, None, Some err)"
| "outcome_of_validate (Return (Inr (null, t))) =
     Some (Some (PtrTo (holder_type null), holder_val null), Some t, None)"

section \<open>A concrete platform and concrete destinations\<close>

text \<open>
  An environment to run the functions on: a 64-bit platform whose parse rules accept a
  raw value of the holder's own kind (an integer when it is in the range of the
  holder's type) and reject everything else. No example converts to a float32, and
  the rounding is left constant.
\<close>

definition in_range :: "nat \<Rightarrow> gotype \<times> goval \<Rightarrow> string + int" where
  "in_range n x =
     (case snd x of
        IntV i \<Rightarrow> if - (2 ^ (n - 1)) \<le> i \<and> i < 2 ^ (n - 1) then Inr i
                  else Inl ''value out of range''
      | _ \<Rightarrow> Inl ''invalid syntax'')"

definition example_env :: env where
  "example_env = \<lparr>
     convertAssign_bool = (\<lambda>x. case snd x of BoolV b \<Rightarrow> Inr b | _ \<Rightarrow> Inl ''invalid syntax''),
     convertAssign_uint8 = (\<lambda>x. case snd x of
        IntV i \<Rightarrow> if 0 \<le> i \<and> i < 256 then Inr (word_of_int i) else Inl ''value out of range''
      | _ \<Rightarrow> Inl ''invalid syntax''),
     convertAssign_int16 = (\<lambda>x. map_sum id word_of_int (in_range 16 x)),
     convertAssign_int32 = (\<lambda>x. map_sum id word_of_int (in_range 32 x)),
     convertAssign_int64 = (\<lambda>x. map_sum id word_of_int (in_range 64 x)),
     convertAssign_string = (\<lambda>x. case snd x of StringV s \<Rightarrow> Inr s | _ \<Rightarrow> Inl ''unsupported Scan''),
     convertAssign_float64 = (\<lambda>x. case snd x of Float64V w \<Rightarrow> Inr w | _ \<Rightarrow> Inl ''invalid syntax''),
     convertAssign_Time = (\<lambda>x. if fst x = time_Time then Inr (snd x) else Inl ''unsupported Scan''),
     intSize = 64,
     toFloat32 = (\<lambda>w. 0) \<rparr>"

text \<open>
  Destinations as the tests build them: a \<open>*string\<close> field that already points at a
  non-empty string, a nil \<open>*CustomBool\<close> field, an \<open>*int16\<close> and an \<open>*int64\<close> field
  that point at the value of an earlier row, each with the NullValue that wraps its
  address, and the \<open>int\<close> passed by value of TestUnsupportedType.
\<close>

definition string_dest :: any where
  "string_dest = Some (PtrTo (PtrTo (Basic go_string)), PtrV (Some 0))"

definition string_heap :: heap where
  "string_heap = [PtrV (Some 1), StringV ''lorem ipsum'', StructV [IfaceV string_dest]]"

definition CustomBool :: gotype where
  "CustomBool = Named ''sqlnull_test.CustomBool'' (Basic go_bool)"

definition bool_dest :: any where
  "bool_dest = Some (PtrTo (PtrTo CustomBool), PtrV (Some 0))"

definition bool_heap :: heap where
  "bool_heap = [PtrV None, StructV [IfaceV bool_dest]]"

definition int16_dest :: any where
  "int16_dest = Some (PtrTo (PtrTo (Basic go_int16)), PtrV (Some 0))"

definition int16_heap :: heap where
  "int16_heap = [PtrV (Some 1), IntV 7, StructV [IfaceV int16_dest]]"

definition int64_dest :: any where
  "int64_dest = Some (PtrTo (PtrTo (Basic go_int64)), PtrV (Some 0))"

definition int64_heap :: heap where
  "int64_heap = [PtrV (Some 1), IntV 5, StructV [IfaceV int64_dest]]"

definition some_int :: any where
  "some_int = Some (Basic go_int, IntV 0)"

definition MyTime :: gotype where
  "MyTime = Named ''main.MyTime'' time_Time_struct"

section \<open>Facts about types\<close>

lemma basic_Kind_not_Ptr: "basic_Kind b \<noteq> Ptr"
  by (cases b) auto

lemma Type_Elem_Ptr: "Type_Kind t = Ptr \<Longrightarrow> \<exists>te. Type_Elem t = Return te"
  by (induction t) (auto simp: basic_Kind_not_Ptr)

lemma Type_Kind_time_Time: "Type_Kind time_Time = Struct"
  by (simp add: time_Time_def time_Time_struct_def)

lemma underlying_Bool: "Type_Kind T = Bool \<Longrightarrow> underlying T = Basic go_bool"
proof (induction T)
  case (Basic b)
  then show ?case by (cases b) auto
qed auto

lemma underlying_String: "Type_Kind T = String \<Longrightarrow> underlying T = Basic go_string"
proof (induction T)
  case (Basic b)
  then show ?case by (cases b) auto
qed auto

lemma underlying_Ptr:
  "Type_Kind te = Ptr \<Longrightarrow> Type_Elem te = Return T \<Longrightarrow> underlying te = PtrTo T"
  by (induction te) (auto simp: basic_Kind_not_Ptr)

lemma zero_Ptr: "Type_Kind te = Ptr \<Longrightarrow> zero te = PtrV None"
  by (induction te) (auto simp: basic_Kind_not_Ptr)

lemma directlyAssignable_refl: "directlyAssignable T T"
  by (simp add: directlyAssignable_def)

lemma directlyAssignable_Ptr:
  "Type_Kind te = Ptr \<Longrightarrow> Type_Elem te = Return T \<Longrightarrow> directlyAssignable te (PtrTo T)"
  by (simp add: directlyAssignable_def underlying_Ptr)

section \<open>Facts about validate\<close>

lemma validate_switch_table:
  "k \<noteq> Struct \<Longrightarrow> validate_switch k T t = resolved t (scalar_table k)"
  by (cases k) (simp_all add: resolved_def)

lemma validate_ptr_ptr:
  "validate (Some (PtrTo (PtrTo T), x)) = validate_switch (Type_Kind T) T (PtrTo (PtrTo T))"
  by (simp add: validate_def)

lemma validate_not_ptr:
  "Type_Kind t \<noteq> Ptr \<Longrightarrow> validate (Some (t, x)) = unsupported t"
  by (simp add: validate_def)

lemma validate_ptr_not_ptr:
  "Type_Kind T \<noteq> Ptr \<Longrightarrow> validate (Some (PtrTo T, x)) = unsupported (PtrTo T)"
  by (simp add: validate_def)

lemma validate_Some_Return: "\<exists>r. validate (Some (t, x)) = Return r"
proof (cases "Type_Kind t = Ptr")
  case False
  then show ?thesis by (simp add: validate_def unsupported_def)
next
  case True
  then obtain te where te: "Type_Elem t = Return te" using Type_Elem_Ptr by blast
  show ?thesis
  proof (cases "Type_Kind te = Ptr")
    case False
    with True te show ?thesis by (simp add: validate_def unsupported_def)
  next
    case T2: True
    then obtain tee where tee: "Type_Elem te = Return tee" using Type_Elem_Ptr by blast
    have "\<exists>r. validate_switch (Type_Kind tee) tee t = Return r"
      by (cases "Type_Kind tee") (simp_all add: supported_def unsupported_def)
    with True T2 te tee show ?thesis by (simp add: validate_def)
  qed
qed

lemma validate_switch_type:
  "validate_switch k T t = Return (Inr (null, tt)) \<Longrightarrow> tt = t"
  by (cases k) (auto simp: supported_def unsupported_def split: if_splits)

lemma validate_supported_D:
  assumes "validate (Some (t, x)) = Return (Inr (null, tt))"
  shows "tt = t \<and> Type_Kind t = Ptr \<and>
     (\<exists>te T. Type_Elem t = Return te \<and> Type_Kind te = Ptr \<and> Type_Elem te = Return T \<and>
        validate_switch (Type_Kind T) T t = Return (Inr (null, t)))"
proof -
  have k: "Type_Kind t = Ptr"
    using assms by (auto simp: validate_def unsupported_def split: if_splits)
  then obtain te where te: "Type_Elem t = Return te" using Type_Elem_Ptr by blast
  have k2: "Type_Kind te = Ptr"
    using assms k te by (auto simp: validate_def unsupported_def split: if_splits)
  then obtain T where T: "Type_Elem te = Return T" using Type_Elem_Ptr by blast
  have sw: "validate_switch (Type_Kind T) T t = Return (Inr (null, tt))"
    using assms k te k2 T by (simp add: validate_def)
  then have "tt = t" by (rule validate_switch_type)
  with k te k2 T sw show ?thesis by auto
qed

lemma validate_any_ptr: "validate (Some (PtrTo any_type, v)) = unsupported (PtrTo any_type)"
  by (simp add: validate_def any_type_def)

lemma validate_NullValue_ptr:
  "validate (Some (PtrTo NullValue_type, v)) = unsupported (PtrTo NullValue_type)"
  by (simp add: validate_def NullValue_type_def)

section \<open>Facts about conversion\<close>

lemma wrap_unsigned_word: "wrap_unsigned LENGTH('a::len) i = uint (word_of_int i :: 'a word)"
  by (simp add: wrap_unsigned_def uint_word_of_int)

lemma wrap_signed_word: "wrap_signed LENGTH('a::len) i = sint (word_of_int i :: 'a word)"
  by (simp add: wrap_signed_def sint_sbintrunc' signed_take_bit_eq_take_bit_shift take_bit_eq_mod)

lemma scast_16_8: "(scast (w :: 16 word) :: 8 word) = ucast w"
  by (rule bit_word_eqI) (auto simp: bit_signed_iff bit_unsigned_iff min_def)

lemma wrap_u8: "wrap_unsigned 8 (uint (w :: 8 word)) = uint w"
  using wrap_unsigned_word [where 'a=8, of "uint w"] by simp

lemma wrap_s8: "wrap_signed 8 (sint (w :: 16 word)) = sint (ucast w :: 8 word)"
  using wrap_signed_word [where 'a=8, of "sint w"] by (simp add: scast_16_8)

lemma wrap_s16: "wrap_signed 16 (sint (w :: 16 word)) = sint w"
  using wrap_signed_word [where 'a=16, of "sint w"] by simp

lemma wrap_u16: "wrap_unsigned 16 (sint (w :: 16 word)) = uint w"
  using wrap_unsigned_word [where 'a=16, of "sint w"] by simp

lemma wrap_s32: "wrap_signed 32 (sint (w :: 32 word)) = sint w"
  using wrap_signed_word [where 'a=32, of "sint w"] by simp

lemma wrap_u32: "wrap_unsigned 32 (sint (w :: 32 word)) = uint w"
  using wrap_unsigned_word [where 'a=32, of "sint w"] by simp

lemma wrap_s64: "wrap_signed 64 (sint (w :: 64 word)) = sint w"
  using wrap_signed_word [where 'a=64, of "sint w"] by simp

lemma wrap_u64: "wrap_unsigned 64 (sint (w :: 64 word)) = uint w"
  using wrap_unsigned_word [where 'a=64, of "sint w"] by simp

lemmas wraps = wrap_u8 wrap_s8 wrap_s16 wrap_u16 wrap_s32 wrap_u32 wrap_s64 wrap_u64

lemma absent_step:
  assumes "validate_switch k T t = Return (Inr (null, t))"
  shows "\<exists>n. null_Scan env null None = (n, None) \<and> null_Value n = (None, None)"
  using assms
  by (cases k) (auto simp: supported_def unsupported_def present_def split: if_splits)

lemma convert_step:
  assumes "validate_switch (Type_Kind T) T t = Return (Inr (null, t))"
    and "null_Scan env null (Some raw) = (null', None)"
  shows "case null_Value null' of
           (Some x, None) \<Rightarrow>
             Value_Convert env h (reflect_ValueOf (Some x)) T
               = Return (Value T (Held (converted env null' (Type_Kind T))))
         | _ \<Rightarrow> False"
  using assms
  by (cases "Type_Kind T")
    (auto simp: supported_def unsupported_def present_def parsed_def signed_kind_def
      integer_kind_def float_kind_def wraps underlying_Bool underlying_String
      split: if_splits sum.splits)

lemma null_Value_no_error: "snd (null_Value n) = None"
  by (cases n) (simp_all add: present_def)

section \<open>Facts about Scan\<close>

lemma bind_result_Return:
  "bind_result m f = Return y \<longleftrightarrow> (\<exists>x. m = Return x \<and> f x = Return y)"
  by (cases m) auto

lemma Scan_absent:
  assumes tgt: "NullValue_target h v = Return (Some (t, PtrV (Some p)))"
    and val: "validate (Some (t, PtrV (Some p))) = Return (Inr (null, tt))"
    and p: "p < length h"
  shows "Scan env h v None = Return (None, h[p := PtrV None])"
proof -
  from validate_supported_D [OF val] obtain te T where
    f: "tt = t" "Type_Kind t = Ptr" "Type_Elem t = Return te" "Type_Kind te = Ptr"
       "Type_Elem te = Return T" "validate_switch (Type_Kind T) T t = Return (Inr (null, t))"
    by blast
  from absent_step [OF f(6)] obtain n where
    n: "null_Scan env null None = (n, None)" "null_Value n = (None, None)" by blast
  show ?thesis
    using tgt val p f(1-5) n
    by (simp add: Scan_def reflect_Zero_def zero_Ptr directlyAssignable_refl)
qed

lemma Scan_present_nil:
  assumes tgt: "NullValue_target h v = Return (Some (t, PtrV (Some p)))"
    and val: "validate (Some (t, PtrV (Some p))) = Return (Inr (null, tt))"
    and p: "p < length h"
    and te: "Type_Elem t = Return te" and T: "Type_Elem te = Return T"
    and parse: "null_Scan env null (Some raw) = (null', None)"
    and inner: "h ! p = PtrV None"
  shows "Scan env h v (Some raw)
     = Return (None, h[p := PtrV (Some (length h))] @ [converted env null' (Type_Kind T)])"
proof -
  from validate_supported_D [OF val] te T have
    f: "tt = t" "Type_Kind t = Ptr" "Type_Kind te = Ptr"
       "validate_switch (Type_Kind T) T t = Return (Inr (null, t))"
    by auto
  note c = convert_step [OF f(4) parse]
  show ?thesis
    using tgt val p te T f(1-3) parse inner c
    by (auto simp: Scan_def reflect_New_def new_def directlyAssignable_refl
        directlyAssignable_Ptr nth_append list_update_append
        split: prod.splits option.splits)
qed

lemma Scan_present_reuse:
  assumes tgt: "NullValue_target h v = Return (Some (t, PtrV (Some p)))"
    and val: "validate (Some (t, PtrV (Some p))) = Return (Inr (null, tt))"
    and p: "p < length h"
    and te: "Type_Elem t = Return te" and T: "Type_Elem te = Return T"
    and parse: "null_Scan env null (Some raw) = (null', None)"
    and inner: "h ! p = PtrV (Some b)" "b < length h"
  shows "Scan env h v (Some raw)
     = Return (None, h[b := converted env null' (Type_Kind T)])"
proof -
  from validate_supported_D [OF val] te T have
    f: "tt = t" "Type_Kind t = Ptr" "Type_Kind te = Ptr"
       "validate_switch (Type_Kind T) T t = Return (Inr (null, t))"
    by auto
  note c = convert_step [OF f(4) parse]
  show ?thesis
    using tgt val p te T f(1-3) parse inner c
    by (auto simp: Scan_def directlyAssignable_refl split: prod.splits option.splits)
qed

lemma Scan_error_heap:
  assumes "Scan env h v src = Return (Some e, h')"
  shows "h' = h"
proof (cases "NullValue_target h v")
  case Panic
  with assms show ?thesis by (simp add: Scan_def)
next
  case tgt: (Return target)
  show ?thesis
  proof (cases "validate target")
    case Panic
    with assms tgt show ?thesis by (simp add: Scan_def)
  next
    case (Return r)
    show ?thesis
    proof (cases r)
      case (Inl err)
      with assms tgt Return show ?thesis by (simp add: Scan_def)
    next
      case (Inr ok)
      obtain null tt where ok: "ok = (null, tt)" by (cases ok)
      obtain null' eo where parse: "null_Scan env null src = (null', eo)"
        by (cases "null_Scan env null src")
      show ?thesis
      proof (cases eo)
        case (Some err)
        with assms tgt Return Inr ok parse show ?thesis by (simp add: Scan_def)
      next
        case None
        obtain x where x: "null_Value null' = (x, None)"
          using null_Value_no_error [of null'] by (cases "null_Value null'") simp
        show ?thesis
        proof (cases x)
          case xn: None
          with assms tgt Return Inr ok parse None x show ?thesis
            by (simp add: Scan_def bind_result_Return)
        next
          case (Some y)
          with assms tgt Return Inr ok parse None x show ?thesis
            by (simp add: Scan_def bind_result_Return)
        qed
      qed
    qed
  qed
qed

text \<open>
  A supported destination whose outer pointer is nil: validate accepts it by its type,
  and once the raw value is parsed the write through the nil pointer panics. No call
  on such a destination is successful.
\<close>

lemma bind_result_Panic: "bind_result m (\<lambda>x. Panic) = Panic"
  by (cases m) auto

lemma Scan_nil_pointer_panics:
  assumes tgt: "NullValue_target h v = Return (Some (t, PtrV None))"
    and val: "validate (Some (t, PtrV None)) = Return (Inr (null, tt))"
    and parse: "null_Scan env null src = (null', None)"
  shows "Scan env h v src = Panic"
proof -
  from validate_supported_D [OF val] have k: "tt = t" "Type_Kind t = Ptr" by auto
  obtain x where x: "null_Value null' = (x, None)"
    using null_Value_no_error [of null'] by (cases "null_Value null'") simp
  show ?thesis
    using tgt val parse k x by (cases x) (simp_all add: Scan_def bind_result_Panic)
qed

section \<open>Facts about Target and Scanner\<close>

lemma extends_refl: "extends h h"
  by (simp add: extends_def)

lemma extends_append: "extends h (h @ ext)"
  by (simp add: extends_def)

lemma extends_iff: "extends h h' \<longleftrightarrow> (\<exists>ext. h' = h @ ext)"
proof
  assume "extends h h'"
  then have "h' = h @ drop (length h) h'"
    using append_take_drop_id [of "length h" h'] by (simp add: extends_def)
  then show "\<exists>ext. h' = h @ ext" ..
next
  assume "\<exists>ext. h' = h @ ext"
  then show "extends h h'" by (auto simp: extends_def)
qed

lemma extends_trans: "extends h h1 \<Longrightarrow> extends h1 h2 \<Longrightarrow> extends h h2"
  by (auto simp: extends_iff)

lemma Target_nil:
  "Target h None = Return (Some (PtrTo any_type, PtrV (Some (length h))), h @ [IfaceV None])"
  by (simp add: Target_def new_def any_type_def)

lemma validate_supported_not_nil: "validate x = Return (Inr ok) \<Longrightarrow> x \<noteq> None"
  by (cases x) (auto simp: validate_def)

lemma Target_supported:
  "validate x = Return (Inr ok) \<Longrightarrow>
   Target h x
     = Return (Some (PtrTo NullValue_type, PtrV (Some (length h))), h @ [StructV [IfaceV x]])"
  by (cases x) (auto simp: Target_def New_def validate_def)

lemma Target_unsupported:
  "validate (Some tx) = Return (Inl e) \<Longrightarrow> Target h (Some tx) = Return (Some tx, h)"
  by (simp add: Target_def)

lemma Target_cases:
  obtains (nil) "x = None"
  | (wrapped) ok where "validate x = Return (Inr ok)"
  | (passed) tx e where "x = Some tx" "validate x = Return (Inl e)"
proof (cases x)
  case None
  then show ?thesis by (rule nil)
next
  case (Some tx)
  obtain t v where "tx = (t, v)" by (cases tx)
  with Some validate_Some_Return [of t v] obtain r where r: "validate x = Return r" by auto
  show ?thesis
  proof (cases r)
    case (Inl e)
    with r Some show ?thesis by (auto intro: passed)
  next
    case (Inr ok)
    with r show ?thesis by (auto intro: wrapped)
  qed
qed

lemma Target_built:
  "\<exists>y h'. Target h x = Return (y, h') \<and> built h h' x y \<and> extends h h'"
proof (cases x rule: Target_cases)
  case nil
  then show ?thesis by (simp add: Target_nil built_def extends_append)
next
  case (wrapped ok)
  then have "x \<noteq> None" by (rule validate_supported_not_nil)
  with wrapped show ?thesis
    by (simp add: Target_supported built_def extends_append)
next
  case (passed tx e)
  then show ?thesis by (simp add: Target_unsupported built_def extends_refl)
qed

lemma Target_result_unsupported:
  assumes "Target h x = Return (y, h')"
  shows "\<exists>ty e. y = Some ty \<and> validate y = Return (Inl e)"
proof (cases x rule: Target_cases)
  case nil
  with assms have "y = Some (PtrTo any_type, PtrV (Some (length h)))"
    by (simp add: Target_nil)
  then show ?thesis by (simp add: validate_any_ptr unsupported_def)
next
  case (wrapped ok)
  with assms have "y = Some (PtrTo NullValue_type, PtrV (Some (length h)))"
    by (simp add: Target_supported)
  then show ?thesis by (simp add: validate_NullValue_ptr unsupported_def)
next
  case (passed tx e)
  with assms have "y = Some tx" by (simp add: Target_unsupported)
  with passed show ?thesis by simp
qed

lemma discard_target_mono:
  assumes "discard_target h1 h2 y" "length h0 \<le> length h1" "extends h2 h3"
  shows "discard_target h0 h3 y"
proof -
  from assms(3) obtain ext where "h3 = h2 @ ext" by (auto simp: extends_iff)
  with assms(1,2) show ?thesis
    by (cases "(h1, h2, y)" rule: discard_target.cases) (simp_all add: nth_append)
qed

lemma adapter_for_mono:
  assumes "adapter_for h1 h2 x y" "length h0 \<le> length h1" "extends h2 h3"
  shows "adapter_for h0 h3 x y"
proof -
  from assms(3) obtain ext where "h3 = h2 @ ext" by (auto simp: extends_iff)
  with assms(1,2) show ?thesis
    by (cases "(h1, h2, x, y)" rule: adapter_for.cases)
       (simp_all add: nth_append split: if_splits)
qed

lemma built_mono:
  assumes "built h1 h2 x y" "length h0 \<le> length h1" "extends h2 h3"
  shows "built h0 h3 x y"
proof (cases x rule: Target_cases)
  case nil
  with assms show ?thesis by (simp add: built_def discard_target_mono)
next
  case (wrapped ok)
  then have "x \<noteq> None" by (rule validate_supported_not_nil)
  with wrapped assms show ?thesis by (auto simp: built_def adapter_for_mono)
next
  case (passed tx e)
  with assms show ?thesis by (simp add: built_def)
qed

lemma Scanner_loop_built:
  "\<exists>ys h'. Scanner_loop h acc xs = Return (acc @ ys, h') \<and> list_all2 (built h h') xs ys
     \<and> extends h h'"
proof (induction xs arbitrary: h acc)
  case Nil
  then show ?case by (simp add: extends_refl)
next
  case (Cons x xs)
  from Target_built [of h x] obtain y h1 where
    y: "Target h x = Return (y, h1)" "built h h1 x y" "extends h h1" by blast
  from Cons.IH [of h1 "acc @ [y]"] obtain ys h' where
    ys: "Scanner_loop h1 (acc @ [y]) xs = Return ((acc @ [y]) @ ys, h')"
        "list_all2 (built h1 h') xs ys" "extends h1 h'" by blast
  have len: "length h \<le> length h1" using y(3) by (simp add: extends_def)
  have "built h h' x y" using built_mono [OF y(2) _ ys(3)] by simp
  moreover have "list_all2 (built h h') xs ys"
    using ys(2)
  proof (rule list_all2_mono)
    fix a b
    assume "built h1 h' a b"
    then show "built h h' a b" using len extends_refl by (rule built_mono)
  qed
  moreover have "extends h h'" using y(3) ys(3) by (rule extends_trans)
  ultimately show ?case using y(1) ys(1) by auto
qed

lemma discard_target_accepts:
  "discard_target h h' y \<Longrightarrow> \<exists>h''. engine_assign h' y src = Some (None, h'')"
  by (cases "(h, h', y)" rule: discard_target.cases) simp_all

section \<open>Facts about validate and memory\<close>

lemma supported_mem_outcome:
  "outcome (supported_mem h null t) = outcome_of_validate (supported null t)"
  by (simp add: supported_mem_def supported_def)

lemma unsupported_mem_outcome:
  "outcome (unsupported_mem h t) = outcome_of_validate (unsupported t)"
  by (simp add: unsupported_mem_def unsupported_def)

lemma validate_mem_switch_outcome:
  "outcome (validate_mem_switch h k tee t) = outcome_of_validate (validate_switch k tee t)"
  by (cases k) (simp_all add: supported_mem_outcome unsupported_mem_outcome)

lemma validate_mem_outcome:
  "outcome (validate_mem h target) = outcome_of_validate (validate target)"
proof (cases target)
  case None
  then show ?thesis by (simp add: validate_mem_def validate_def)
next
  case (Some tx)
  obtain t x where tx: "tx = (t, x)" by (cases tx)
  show ?thesis
  proof (cases "Type_Kind t = Ptr")
    case False
    with Some tx show ?thesis
      by (simp add: validate_mem_def validate_def unsupported_mem_outcome)
  next
    case True
    then obtain te where te: "Type_Elem t = Return te" using Type_Elem_Ptr by blast
    show ?thesis
    proof (cases "Type_Kind te = Ptr")
      case False
      with Some tx True te show ?thesis
        by (simp add: validate_mem_def validate_def unsupported_mem_outcome)
    next
      case T2: True
      then obtain tee where tee: "Type_Elem te = Return tee" using Type_Elem_Ptr by blast
      with Some tx True te T2 show ?thesis
        by (simp add: validate_mem_def validate_def validate_mem_switch_outcome)
    qed
  qed
qed

lemma validate_mem_switch_extends:
  "validate_mem_switch h k tee t = Return (r, h') \<Longrightarrow> extends h h'"
  by (cases k)
     (auto simp: supported_mem_def unsupported_mem_def extends_append extends_refl
       split: if_splits)

lemma validate_mem_extends:
  assumes "validate_mem h target = Return (r, h')"
  shows "extends h h'"
proof (cases target)
  case None
  with assms show ?thesis by (simp add: validate_mem_def)
next
  case (Some tx)
  obtain t x where tx: "tx = (t, x)" by (cases tx)
  show ?thesis
  proof (cases "Type_Kind t = Ptr")
    case False
    with assms Some tx show ?thesis
      by (simp add: validate_mem_def unsupported_mem_def extends_refl)
  next
    case True
    then obtain te where te: "Type_Elem t = Return te" using Type_Elem_Ptr by blast
    show ?thesis
    proof (cases "Type_Kind te = Ptr")
      case False
      with assms Some tx True te show ?thesis
        by (simp add: validate_mem_def unsupported_mem_def extends_refl)
    next
      case T2: True
      then obtain tee where tee: "Type_Elem te = Return tee" using Type_Elem_Ptr by blast
      with assms Some tx True te T2
      have "validate_mem_switch h (Type_Kind tee) tee t = Return (r, h')"
        by (simp add: validate_mem_def)
      then show ?thesis by (rule validate_mem_switch_extends)
    qed
  qed
qed

lemma extends_nth: "extends h h' \<Longrightarrow> p < length h \<Longrightarrow> h' ! p = h ! p"
  by (auto simp: extends_iff nth_append)

section \<open>Resolution\<close>

text \<open>
  C1. A destination whose type is, by kind, a pointer to a pointer to T resolves by the
  fixed table on the underlying kind of T (bool to boolean, uint8 to byte, int8, int16
  and uint16 to int16, int32 and uint32 to int32, int64, uint64, int and uint to
  int64, string to text, float32 and float64 to float), and time.Time resolves to
  timestamp. Every other destination fails with UnsupportedDestination: one that is
  not a pointer, a pointer to a non-pointer, three levels of indirection (T is again a
  pointer), and an innermost T of a kind outside the table or a struct other than
  time.Time. The destination is any non-nil interface value; the nil interface is the
  subject of C9.
\<close>

theorem validate_fixed_table:
  "(Type_Kind t \<noteq> Ptr \<longrightarrow> validate (Some (t, x)) = unsupported t)
   \<and> (Type_Kind t = Ptr \<and> Type_Elem t = Return te \<and> Type_Kind te \<noteq> Ptr \<longrightarrow>
        validate (Some (t, x)) = unsupported t)
   \<and> (Type_Kind t = Ptr \<and> Type_Elem t = Return te \<and> Type_Kind te = Ptr \<and> Type_Elem te = Return T \<longrightarrow>
        (Type_Kind T \<noteq> Struct \<longrightarrow> validate (Some (t, x)) = resolved t (scalar_table (Type_Kind T)))
      \<and> (T = time_Time \<longrightarrow> validate (Some (t, x)) = resolved t (Some K_timestamp))
      \<and> (Type_Kind T = Ptr \<longrightarrow> validate (Some (t, x)) = unsupported t)
      \<and> (Type_Kind T = Struct \<and> T \<noteq> time_Time \<longrightarrow> validate (Some (t, x)) = unsupported t))"
  by (simp add: validate_def validate_switch_table resolved_def Type_Kind_time_Time)

text \<open>
  The table at a \<open>**uint16\<close> and at a \<open>**time.Time\<close>, the unrelated record type of
  TestUnsupportedqlNullValued, a \<open>***bool\<close>, a \<open>*int\<close> and an \<open>int\<close> passed by value.
\<close>

theorem validate_fixed_table_witness:
  "validate (Some (PtrTo (PtrTo (Basic go_uint16)), PtrV None))
     = supported (NullInt16 0 False) (PtrTo (PtrTo (Basic go_uint16)))
   \<and> validate (Some (PtrTo (PtrTo time_Time), PtrV None))
     = supported (NullTime (StructV [IntV 0, IntV 0, PtrV None]) False) (PtrTo (PtrTo time_Time))
   \<and> validate (Some (PtrTo (PtrTo (StructOf [(''Data'', Basic go_bool)])), PtrV None))
     = unsupported (PtrTo (PtrTo (StructOf [(''Data'', Basic go_bool)])))
   \<and> validate (Some (PtrTo (PtrTo (PtrTo (Basic go_bool))), PtrV None))
     = unsupported (PtrTo (PtrTo (PtrTo (Basic go_bool))))
   \<and> validate (Some (PtrTo (Basic go_int), PtrV None)) = unsupported (PtrTo (Basic go_int))
   \<and> validate (Some (Basic go_int, IntV 0)) = unsupported (Basic go_int)"
  using
    validate_fixed_table [of "PtrTo (PtrTo (Basic go_uint16))" "PtrV None"
      "PtrTo (Basic go_uint16)" "Basic go_uint16"]
    validate_fixed_table [of "PtrTo (PtrTo time_Time)" "PtrV None" "PtrTo time_Time" time_Time]
    validate_fixed_table [of "PtrTo (PtrTo (StructOf [(''Data'', Basic go_bool)]))" "PtrV None"
      "PtrTo (StructOf [(''Data'', Basic go_bool)])" "StructOf [(''Data'', Basic go_bool)]"]
    validate_fixed_table [of "PtrTo (PtrTo (PtrTo (Basic go_bool)))" "PtrV None"
      "PtrTo (PtrTo (Basic go_bool))" "PtrTo (Basic go_bool)"]
    validate_fixed_table [of "PtrTo (Basic go_int)" "PtrV None" "Basic go_int" "Basic go_int"]
    validate_fixed_table [of "Basic go_int" "IntV 0" "Basic go_int" "Basic go_int"]
  by (simp add: resolved_def time_Time_def)

text \<open>
  C5. A destination of shape pointer-to-pointer-to-N, for a named type N whose
  underlying representation is not a struct, resolves exactly as the destination over
  the underlying type does, by the table on the underlying kind. A named type defined
  over the struct of time.Time is a different type from time.Time and is rejected:
  the timestamp row asks for time.Time itself.
\<close>

theorem validate_named_types:
  "(Type_Kind u \<noteq> Struct \<longrightarrow>
      validate (Some (PtrTo (PtrTo (Named n u)), x))
        = resolved (PtrTo (PtrTo (Named n u))) (scalar_table (Type_Kind u))
      \<and> validate (Some (PtrTo (PtrTo u), x)) = resolved (PtrTo (PtrTo u)) (scalar_table (Type_Kind u)))
   \<and> (Type_Kind u = Struct \<and> Named n u \<noteq> time_Time \<longrightarrow>
      validate (Some (PtrTo (PtrTo (Named n u)), x)) = unsupported (PtrTo (PtrTo (Named n u))))"
  by (simp add: validate_ptr_ptr validate_switch_table)

text \<open>The named boolean of the tests, and a named type over the struct of time.Time.\<close>

theorem validate_named_types_witness:
  "Type_Kind (Basic go_bool) \<noteq> Struct
   \<and> validate (Some (PtrTo (PtrTo CustomBool), PtrV None))
       = supported (NullBool False False) (PtrTo (PtrTo CustomBool))
   \<and> validate (Some (PtrTo (PtrTo (Basic go_bool)), PtrV None))
       = supported (NullBool False False) (PtrTo (PtrTo (Basic go_bool)))
   \<and> Type_Kind time_Time_struct = Struct \<and> MyTime \<noteq> time_Time
   \<and> validate (Some (PtrTo (PtrTo MyTime), PtrV None)) = unsupported (PtrTo (PtrTo MyTime))"
  using validate_named_types [of "Basic go_bool" "''sqlnull_test.CustomBool''" "PtrV None"]
    validate_named_types [of time_Time_struct "''main.MyTime''" "PtrV None"]
  by (simp add: resolved_def CustomBool_def MyTime_def time_Time_def time_Time_struct_def)

text \<open>
  A named type with the underlying representation of time.Time is not classified as
  a timestamp, although time.Time is.
\<close>

theorem validate_named_time_counterexample:
  "underlying MyTime = underlying time_Time
   \<and> validate (Some (PtrTo (PtrTo time_Time), PtrV None))
       = supported (holder_of K_timestamp) (PtrTo (PtrTo time_Time))
   \<and> validate (Some (PtrTo (PtrTo MyTime), PtrV None)) = unsupported (PtrTo (PtrTo MyTime))"
  by (simp add: validate_def MyTime_def time_Time_def time_Time_struct_def)

text \<open>
  C8. validate is pure. It mutates nothing: the heap after a call is the heap before
  it with at most the fresh holder appended, so every variable that existed before the
  call, the destination and whatever it points to among them, holds what it held. It
  reads nothing of its argument but the dynamic type: on two destinations of the same
  type it returns identical results in the same heap, and in any two heaps (a second
  call after a first, say) the same outcome, that is the same panic or the same type,
  the same error and a holder of the same type and contents. The value-passing
  \<open>validate\<close> that Scan and Target use returns the same on both as well, and is that
  outcome.
\<close>

theorem validate_pure:
  "(validate_mem h a = Return (r, h') \<longrightarrow>
      length h \<le> length h' \<and> (\<forall>p<length h. h' ! p = h ! p))
   \<and> (reflect_TypeOf a = reflect_TypeOf b \<longrightarrow>
        validate_mem h a = validate_mem h b
      \<and> outcome (validate_mem h a) = outcome (validate_mem g b)
      \<and> validate a = validate b)
   \<and> outcome (validate_mem h a) = outcome_of_validate (validate a)"
proof -
  have 1: "length h \<le> length h' \<and> (\<forall>p<length h. h' ! p = h ! p)"
    if "validate_mem h a = Return (r, h')"
    using validate_mem_extends [OF that] by (simp add: extends_nth extends_def)
  have 2: "validate_mem h a = validate_mem h b" "validate a = validate b"
    if "reflect_TypeOf a = reflect_TypeOf b"
    using that by (simp_all add: validate_mem_def validate_def)
  have 3: "outcome (validate_mem h a) = outcome (validate_mem g b)"
    if "reflect_TypeOf a = reflect_TypeOf b"
    using 2(2) [OF that] by (simp add: validate_mem_outcome)
  show ?thesis using 1 2 3 by (simp add: validate_mem_outcome)
qed

text \<open>
  Two \<open>**string\<close> destinations, one at address 0 of the heap of the tests and one nil,
  the second validated in the heap the first call left.
\<close>

theorem validate_pure_witness:
  "reflect_TypeOf string_dest = reflect_TypeOf (Some (PtrTo (PtrTo (Basic go_string)), PtrV None))
   \<and> validate_mem string_heap string_dest
       = Return ((Some (PtrTo (holder_type (NullString [] False)), PtrV (Some 3)),
                  Some (PtrTo (PtrTo (Basic go_string))), None),
                 string_heap @ [StructV [StringV [], BoolV False]])
   \<and> (string_heap @ [StructV [StringV [], BoolV False]]) ! 0 = string_heap ! 0
   \<and> (string_heap @ [StructV [StringV [], BoolV False]]) ! 1 = string_heap ! 1
   \<and> outcome (validate_mem string_heap string_dest)
       = outcome (validate_mem (string_heap @ [StructV [StringV [], BoolV False]])
           (Some (PtrTo (PtrTo (Basic go_string)), PtrV None)))
   \<and> validate string_dest = validate (Some (PtrTo (PtrTo (Basic go_string)), PtrV None))"
proof -
  let ?b = "Some (PtrTo (PtrTo (Basic go_string)), PtrV None)"
  let ?h' = "string_heap @ [StructV [StringV [], BoolV False]]"
  let ?r = "(Some (PtrTo (holder_type (NullString [] False)), PtrV (Some 3)),
             Some (PtrTo (PtrTo (Basic go_string))), None)"
  have t: "reflect_TypeOf string_dest = reflect_TypeOf ?b"
    by (simp add: string_dest_def)
  have v: "validate_mem string_heap string_dest = Return (?r, ?h')"
    by (simp add: validate_mem_def supported_mem_def string_dest_def string_heap_def)
  have l: "(0::nat) < length string_heap" "(1::nat) < length string_heap"
    by (simp_all add: string_heap_def)
  note th = validate_pure [of string_heap string_dest ?r ?h' ?b ?h']
  from th v have m: "\<forall>p<length string_heap. ?h' ! p = string_heap ! p" by blast
  from m l have n: "?h' ! 0 = string_heap ! 0" "?h' ! 1 = string_heap ! 1" by blast+
  from th t have d: "outcome (validate_mem string_heap string_dest) = outcome (validate_mem ?h' ?b)"
    "validate string_dest = validate ?b" by blast+
  from t v n d show ?thesis by (intro conjI)
qed

text \<open>
  C9. validate panics on the nil interface: reflect.TypeOf gives the nil Type and Kind
  is called on it. New performs no check, so Scan on New(nil) panics instead of
  returning UnsupportedDestination. On every non-nil target validate returns.
\<close>

theorem validate_nil_panics:
  "validate None = Panic
   \<and> Scan env (snd (New h None)) (fst (New h None)) src = Panic
   \<and> (\<exists>r. validate (Some (t, x)) = Return r)"
  using validate_Some_Return [of t x]
  by (simp add: validate_def New_def Scan_def)

text \<open>New(nil) on the empty heap, scanned with 99, and the non-nil \<open>int\<close> target.\<close>

theorem validate_nil_panics_witness:
  "validate None = Panic
   \<and> Scan example_env (snd (New [] None)) (fst (New [] None)) (Some (Basic go_int64, IntV 99)) = Panic
   \<and> validate some_int = unsupported (Basic go_int)"
  using validate_nil_panics [of example_env "[]" "Some (Basic go_int64, IntV 99)" "Basic go_int" "IntV 0"]
  by (simp add: some_int_def validate_def)

section \<open>Accepting a value\<close>

text \<open>
  C2. For a supported destination whose outer pointer addresses a variable, whatever
  that variable holds (a nil inner pointer or one to storage allocated earlier), Scan
  of the absent raw value returns no error and leaves the inner pointer nil; no other
  variable changes. (With a nil outer pointer no call is successful, see
  \<open>Scan_nil_pointer_panics\<close>.)
\<close>

theorem Scan_null_clears_destination:
  assumes "NullValue_target h v = Return (Some (t, PtrV (Some p)))"
    and "validate (Some (t, PtrV (Some p))) = Return (Inr (null, tt))"
    and "p < length h"
  shows "\<exists>h'. Scan env h v None = Return (None, h') \<and> h' ! p = PtrV None
     \<and> length h' = length h \<and> (\<forall>a<length h. a \<noteq> p \<longrightarrow> h' ! a = h ! a)"
  using Scan_absent [OF assms] assms(3) by simp

text \<open>The \<open>*string\<close> field that pointed at "lorem ipsum" is nil after a null column.\<close>

theorem Scan_null_clears_destination_witness:
  "NullValue_target string_heap (PtrV (Some 2)) = Return string_dest
   \<and> validate string_dest = Return (Inr (NullString [] False, PtrTo (PtrTo (Basic go_string))))
   \<and> string_heap ! 0 = PtrV (Some 1) \<and> string_heap ! 1 = StringV ''lorem ipsum''
   \<and> (\<exists>h'. Scan example_env string_heap (PtrV (Some 2)) None = Return (None, h')
        \<and> h' ! 0 = PtrV None \<and> h' ! 1 = StringV ''lorem ipsum'')"
proof -
  have a: "NullValue_target string_heap (PtrV (Some 2))
      = Return (Some (PtrTo (PtrTo (Basic go_string)), PtrV (Some 0)))"
    by (simp add: string_heap_def string_dest_def)
  have b: "validate (Some (PtrTo (PtrTo (Basic go_string)), PtrV (Some 0)))
      = Return (Inr (NullString [] False, PtrTo (PtrTo (Basic go_string))))"
    by (simp add: validate_def supported_def)
  have c: "0 < length string_heap" by (simp add: string_heap_def)
  from Scan_null_clears_destination [OF a b c, of example_env]
  obtain h' where h': "Scan example_env string_heap (PtrV (Some 2)) None = Return (None, h')"
    "h' ! 0 = PtrV None" "\<forall>a<length string_heap. a \<noteq> 0 \<longrightarrow> h' ! a = string_heap ! a"
    by blast
  from h'(3) have "h' ! 1 = string_heap ! 1" by (simp add: string_heap_def)
  with a b h'(1,2) show ?thesis by (auto simp: string_heap_def string_dest_def)
qed

text \<open>
  C3. For a supported destination over a type T (named or not) and a present raw
  value that the holder's parse rule accepts, Scan returns no error and leaves the
  inner pointer non-nil, pointing at a variable that holds the parsed native value
  converted to T. The variable the outer pointer addresses holds a pointer before the
  call, nil or to an allocated variable other than itself.
\<close>

theorem Scan_value_converts:
  assumes "NullValue_target h v = Return (Some (t, PtrV (Some p)))"
    and "validate (Some (t, PtrV (Some p))) = Return (Inr (null, tt))"
    and "p < length h"
    and "Type_Elem t = Return te" and "Type_Elem te = Return T"
    and "null_Scan env null (Some raw) = (null', None)"
    and "h ! p = PtrV q"
    and "case q of None \<Rightarrow> True | Some b \<Rightarrow> b < length h \<and> b \<noteq> p"
  shows "\<exists>h' b. Scan env h v (Some raw) = Return (None, h') \<and> h' ! p = PtrV (Some b)
     \<and> b < length h' \<and> h' ! b = converted env null' (Type_Kind T)"
proof (cases q)
  case None
  with assms(7) have "h ! p = PtrV None" by simp
  from Scan_present_nil [OF assms(1-6) this] assms(3) show ?thesis
    by (simp add: nth_append)
next
  case (Some b)
  with assms(7,8) have b: "h ! p = PtrV (Some b)" "b < length h" "b \<noteq> p" by simp_all
  from Scan_present_reuse [OF assms(1-6) b(1,2)] b show ?thesis by simp
qed

text \<open>The nil \<open>*CustomBool\<close> field receives a pointer to the named boolean true.\<close>

theorem Scan_value_converts_witness:
  "NullValue_target bool_heap (PtrV (Some 1)) = Return bool_dest
   \<and> validate bool_dest = Return (Inr (NullBool False False, PtrTo (PtrTo CustomBool)))
   \<and> null_Scan example_env (NullBool False False) (Some (Basic go_bool, BoolV True))
       = (NullBool True True, None)
   \<and> bool_heap ! 0 = PtrV None
   \<and> (\<exists>h' b. Scan example_env bool_heap (PtrV (Some 1)) (Some (Basic go_bool, BoolV True))
         = Return (None, h') \<and> h' ! 0 = PtrV (Some b) \<and> b < length h' \<and> h' ! b = BoolV True)"
proof -
  have a: "NullValue_target bool_heap (PtrV (Some 1))
      = Return (Some (PtrTo (PtrTo CustomBool), PtrV (Some 0)))"
    by (simp add: bool_heap_def bool_dest_def)
  have b: "validate (Some (PtrTo (PtrTo CustomBool), PtrV (Some 0)))
      = Return (Inr (NullBool False False, PtrTo (PtrTo CustomBool)))"
    by (simp add: validate_def supported_def CustomBool_def)
  have c: "0 < length bool_heap" by (simp add: bool_heap_def)
  have d: "Type_Elem (PtrTo (PtrTo CustomBool)) = Return (PtrTo CustomBool)" by simp
  have e: "Type_Elem (PtrTo CustomBool) = Return CustomBool" by simp
  have f: "null_Scan example_env (NullBool False False) (Some (Basic go_bool, BoolV True))
      = (NullBool True True, None)"
    by (simp add: example_env_def parsed_def)
  have g: "bool_heap ! 0 = PtrV None" by (simp add: bool_heap_def)
  have i: "case None of None \<Rightarrow> True | Some b \<Rightarrow> b < length bool_heap \<and> b \<noteq> 0" by simp
  from Scan_value_converts [OF a b c d e f g i] a b f g show ?thesis
    by (simp add: bool_dest_def)
qed

text \<open>
  C4. Whenever Scan returns an error, the heap after the call is the heap before it:
  nothing has been written, whether the error is the UnsupportedDestination of
  validate or the ConversionError of the holder's parse rule.
\<close>

theorem Scan_error_leaves_destination_untouched:
  "Scan env h v src = Return (Some e, h') \<Longrightarrow> h' = h"
  by (rule Scan_error_heap)

text \<open>
  A text column scanned into an \<open>*int16\<close> field, and the \<open>int\<close> passed by value of
  TestUnsupportedType.
\<close>

theorem Scan_error_leaves_destination_untouched_witness:
  "Scan example_env int16_heap (PtrV (Some 2)) (Some (Basic go_string, StringV ''lorem ipsum''))
     = Return (Some (ConversionError ''invalid syntax''), int16_heap)
   \<and> Scan example_env [StructV [IfaceV some_int]] (PtrV (Some 0)) (Some (Basic go_int64, IntV 99))
     = Return (Some (UnsupportedDestination (Basic go_int)), [StructV [IfaceV some_int]])"
proof -
  have a: "\<exists>h'. Scan example_env int16_heap (PtrV (Some 2))
       (Some (Basic go_string, StringV ''lorem ipsum''))
     = Return (Some (ConversionError ''invalid syntax''), h')"
    by (simp add: Scan_def int16_heap_def int16_dest_def validate_def supported_def
        example_env_def parsed_def in_range_def)
  have b: "\<exists>h'. Scan example_env [StructV [IfaceV some_int]] (PtrV (Some 0))
       (Some (Basic go_int64, IntV 99))
     = Return (Some (UnsupportedDestination (Basic go_int)), h')"
    by (simp add: Scan_def some_int_def validate_def unsupported_def)
  from a b show ?thesis
    by (auto dest: Scan_error_leaves_destination_untouched)
qed

text \<open>
  C7. After a successful Scan the destination's inner pointer is nil when the raw
  value was absent. When it was present, the inner pointer points at a variable
  holding the converted value: a variable allocated by this call when the inner
  pointer was nil before it, and the very variable it pointed at before the call,
  overwritten in place, when it was not. The variable the outer pointer addresses
  holds a pointer before the call, nil or to an allocated variable other than itself.
\<close>

theorem Scan_destination_after_success:
  assumes "NullValue_target h v = Return (Some (t, PtrV (Some p)))"
    and "validate (Some (t, PtrV (Some p))) = Return (Inr (null, tt))"
    and "p < length h"
    and "Type_Elem t = Return te" and "Type_Elem te = Return T"
    and "null_Scan env null src = (null', None)"
    and "h ! p = PtrV q"
    and "case q of None \<Rightarrow> True | Some b \<Rightarrow> b < length h \<and> b \<noteq> p"
  shows "\<exists>h'. Scan env h v src = Return (None, h')
     \<and> (src = None \<longrightarrow> h' ! p = PtrV None)
     \<and> (src \<noteq> None \<and> q = None \<longrightarrow>
          h' ! p = PtrV (Some (length h)) \<and> length h' = Suc (length h)
          \<and> h' ! length h = converted env null' (Type_Kind T))
     \<and> (\<forall>b. src \<noteq> None \<and> q = Some b \<longrightarrow>
          h' ! p = PtrV (Some b) \<and> length h' = length h
          \<and> h' ! b = converted env null' (Type_Kind T))"
proof (cases src)
  case None
  with Scan_absent [OF assms(1-3)] assms(3) show ?thesis by simp
next
  case (Some raw)
  show ?thesis
  proof (cases q)
    case None
    with assms(7) have "h ! p = PtrV None" by simp
    from Scan_present_nil [OF assms(1-5) assms(6) [unfolded Some] this] assms(3) Some None
    show ?thesis by (simp add: nth_append)
  next
    case b: (Some b)
    with assms(7,8) have i: "h ! p = PtrV (Some b)" "b < length h" "b \<noteq> p" by simp_all
    from Scan_present_reuse [OF assms(1-5) assms(6) [unfolded Some] i(1,2)] i Some b
    show ?thesis by simp
  qed
qed

text \<open>An \<open>*int64\<close> field that points at the 5 of an earlier row receives 99 in place.\<close>

theorem Scan_destination_after_success_witness:
  "NullValue_target int64_heap (PtrV (Some 2)) = Return int64_dest
   \<and> validate int64_dest = Return (Inr (NullInt64 0 False, PtrTo (PtrTo (Basic go_int64))))
   \<and> null_Scan example_env (NullInt64 0 False) (Some (Basic go_int64, IntV 99))
       = (NullInt64 99 True, None)
   \<and> int64_heap ! 0 = PtrV (Some 1)
   \<and> (\<exists>h'. Scan example_env int64_heap (PtrV (Some 2)) (Some (Basic go_int64, IntV 99))
         = Return (None, h') \<and> h' ! 0 = PtrV (Some 1) \<and> length h' = length int64_heap
         \<and> h' ! 1 = IntV 99)"
proof -
  have a: "NullValue_target int64_heap (PtrV (Some 2))
      = Return (Some (PtrTo (PtrTo (Basic go_int64)), PtrV (Some 0)))"
    by (simp add: int64_heap_def int64_dest_def)
  have b: "validate (Some (PtrTo (PtrTo (Basic go_int64)), PtrV (Some 0)))
      = Return (Inr (NullInt64 0 False, PtrTo (PtrTo (Basic go_int64))))"
    by (simp add: validate_def supported_def)
  have c: "0 < length int64_heap" by (simp add: int64_heap_def)
  have d: "Type_Elem (PtrTo (PtrTo (Basic go_int64))) = Return (PtrTo (Basic go_int64))" by simp
  have e: "Type_Elem (PtrTo (Basic go_int64)) = Return (Basic go_int64)" by simp
  have f: "null_Scan example_env (NullInt64 0 False) (Some (Basic go_int64, IntV 99))
      = (NullInt64 99 True, None)"
    by (simp add: example_env_def parsed_def in_range_def)
  have g: "int64_heap ! 0 = PtrV (Some 1)" by (simp add: int64_heap_def)
  have i: "case Some 1 of None \<Rightarrow> True | Some b \<Rightarrow> b < length int64_heap \<and> b \<noteq> 0"
    by (simp add: int64_heap_def)
  from Scan_destination_after_success [OF a b c d e f g i] a b f g show ?thesis
    by (simp add: int64_dest_def)
qed

text \<open>
  A present value scanned into a destination whose inner pointer is not nil: the call
  succeeds and the inner pointer still holds address 1, storage that was allocated
  before the call and held the value of the earlier row, not fresh storage.
\<close>

theorem Scan_reuses_storage_counterexample:
  "Scan example_env int64_heap (PtrV (Some 2)) (Some (Basic go_int64, IntV 99))
     = Return (None, [PtrV (Some 1), IntV 99, StructV [IfaceV int64_dest]])
   \<and> int64_heap ! 0 = PtrV (Some 1) \<and> 1 < length int64_heap \<and> int64_heap ! 1 = IntV 5"
  by (simp add: Scan_def int64_heap_def int64_dest_def validate_def supported_def present_def
      directlyAssignable_def example_env_def parsed_def in_range_def signed_kind_def
      integer_kind_def wrap_signed_def)

section \<open>Building targets\<close>

text \<open>
  C6. Scanner never panics and returns as many targets as it was given destinations,
  the i-th built from the i-th destination: a discard target for a nil destination,
  which the row-fetch engine fills with any raw value without failing; a Scan Adapter
  holding the destination when validate resolves it; the destination itself
  otherwise. The heap only grows by the allocated targets.
\<close>

theorem Scanner_builds_targets:
  "\<exists>ys h'. Scanner h xs = Return (ys, h') \<and> length ys = length xs \<and> extends h h'
     \<and> (\<forall>i<length xs. built h h' (xs ! i) (ys ! i)
          \<and> (xs ! i = None \<longrightarrow> (\<forall>src. \<exists>h''. engine_assign h' (ys ! i) src = Some (None, h''))))"
proof -
  from Scanner_loop_built [of h "[]" xs] obtain ys h' where
    r: "Scanner_loop h [] xs = Return (ys, h')" "list_all2 (built h h') xs ys" "extends h h'"
    by auto
  have len: "length ys = length xs" using r(2) by (simp add: list_all2_lengthD)
  have pos: "built h h' (xs ! i) (ys ! i)" if "i < length xs" for i
    using r(2) that by (simp add: list_all2_nthD)
  have acc: "\<exists>h''. engine_assign h' (ys ! i) src = Some (None, h'')"
    if "i < length xs" "xs ! i = None" for i src
    using pos [OF that(1)] that(2) by (simp add: built_def discard_target_accepts)
  show ?thesis
    using r(1,3) len pos acc by (simp add: Scanner_def)
qed

text \<open>
  A mixed list: nil, the address of a \<open>*bool\<close> field, and an \<open>int\<close> passed by value.
\<close>

theorem Scanner_builds_targets_witness:
  "\<exists>ys h'. Scanner [PtrV None] [None, Some (PtrTo (PtrTo (Basic go_bool)), PtrV (Some 0)), some_int]
       = Return (ys, h')
     \<and> length ys = 3
     \<and> discard_target [PtrV None] h' (ys ! 0)
     \<and> adapter_for [PtrV None] h' (Some (PtrTo (PtrTo (Basic go_bool)), PtrV (Some 0))) (ys ! 1)
     \<and> ys ! 2 = some_int"
proof -
  let ?d = "Some (PtrTo (PtrTo (Basic go_bool)), PtrV (Some 0))"
  let ?xs = "[None, ?d, some_int]"
  from Scanner_builds_targets [of "[PtrV None]" ?xs] obtain ys h' where
    r: "Scanner [PtrV None] ?xs = Return (ys, h')" "length ys = length ?xs"
       "\<forall>i<length ?xs. built [PtrV None] h' (?xs ! i) (ys ! i)"
    by blast
  have v1: "validate ?d = Return (Inr (NullBool False False, PtrTo (PtrTo (Basic go_bool))))"
    by (simp add: validate_def supported_def)
  have v2: "validate some_int = Return (Inl (UnsupportedDestination (Basic go_int)))"
    by (simp add: validate_def unsupported_def some_int_def)
  from spec [OF r(3), of 0] have "built [PtrV None] h' (?xs ! 0) (ys ! 0)" by simp
  then have b0: "discard_target [PtrV None] h' (ys ! 0)" by (simp add: built_def)
  from spec [OF r(3), of 1] have "built [PtrV None] h' (?xs ! 1) (ys ! 1)" by simp
  then have b1: "adapter_for [PtrV None] h' ?d (ys ! 1)" by (simp add: built_def v1)
  from spec [OF r(3), of 2] have "built [PtrV None] h' (?xs ! 2) (ys ! 2)" by simp
  then have b2: "ys ! 2 = some_int" using v2 by (simp add: built_def some_int_def)
  from r(1,2) b0 b1 b2 show ?thesis by auto
qed

text \<open>
  C10. Target is idempotent: whatever Target returns is a non-nil target that validate
  does not resolve, so Target applied to it returns it unchanged and allocates
  nothing.
\<close>

theorem Target_idempotent:
  "\<exists>y h'. Target h x = Return (y, h') \<and> y \<noteq> None \<and> (\<exists>e. validate y = Return (Inl e))
     \<and> Target h' y = Return (y, h')"
proof -
  from Target_built [of h x] obtain y h' where t: "Target h x = Return (y, h')" by blast
  from Target_result_unsupported [OF t] obtain ty e where
    y: "y = Some ty" "validate y = Return (Inl e)" by blast
  then have "Target h' y = Return (y, h')" by (simp add: Target_unsupported)
  with t y show ?thesis by auto
qed

text \<open>Target of nil, and Target of the discard target it returned.\<close>

theorem Target_idempotent_witness:
  "\<exists>y h'. Target [] None = Return (y, h') \<and> y = Some (PtrTo any_type, PtrV (Some 0))
     \<and> h' = [IfaceV None] \<and> Target h' y = Return (y, h')"
  using Target_idempotent [of "[]" None]
  by (auto simp: Target_nil)

end
